theory Spec2Isabelle
  imports Main
begin

section \<open>Values, objects and the heap\<close>

text \<open>
  \<^verbatim>\<open>GlobalFilterDefaults.ts\<close> declares one class whose six property initialisers are
  object and array literals. Every literal evaluated at run time allocates a fresh object,
  and \<^verbatim>\<open>this.defaultStates\<close> hands out a reference to an object allocated earlier, so
  the model keeps an explicit heap: a value is a primitive or a reference, and the heap
  maps an address to a plain object (its own properties in insertion order) or to an array.
  The numeric literals of the class are the integers 7 and 1.
\<close>

type_synonym addr = nat

datatype jsval =
    JUndefined
  | JBoolean bool
  | JNumber int
  | JString string
  | JRef addr

datatype jsobj =
    JObject "(string \<times> jsval) list"
  | JArray "jsval list"

type_synonym heap = "jsobj list"

definition heap_at :: "heap \<Rightarrow> addr \<Rightarrow> jsobj option" where
  "heap_at h a = (if a < length h then Some (h ! a) else None)"

text \<open>Allocation takes the next unused address, so a new object never replaces an old one.\<close>

definition alloc :: "jsobj \<Rightarrow> heap \<Rightarrow> jsval \<times> heap" where
  "alloc ob h = (JRef (length h), h @ [ob])"

text \<open>
  Reading \<^verbatim>\<open>base.k\<close>: an absent key of an object reads as \<^verbatim>\<open>undefined\<close>; reading a
  property of \<^verbatim>\<open>undefined\<close> raises a TypeError, which is the result \<open>None\<close>. The class
  reads named properties of plain objects only, so properties of arrays and of the other
  primitives are left out of the model and read as \<open>None\<close> as well.
\<close>

fun get_prop :: "heap \<Rightarrow> jsval \<Rightarrow> string \<Rightarrow> jsval option" where
  "get_prop h (JRef a) k =
     (case heap_at h a of
        Some (JObject kvs) \<Rightarrow>
          (case map_of kvs k of Some v \<Rightarrow> Some v | None \<Rightarrow> Some JUndefined)
      | _ \<Rightarrow> None)"
| "get_prop h _ k = None"

text \<open>
  Writing \<^verbatim>\<open>base.k = v\<close>: an existing key keeps its place, a new key goes to the end.
  As for reading, only plain objects are written to.
\<close>

fun put_key :: "string \<Rightarrow> jsval \<Rightarrow> (string \<times> jsval) list \<Rightarrow> (string \<times> jsval) list" where
  "put_key k v [] = [(k, v)]"
| "put_key k v (p # ps) = (if fst p = k then (k, v) # ps else p # put_key k v ps)"

fun set_prop :: "heap \<Rightarrow> jsval \<Rightarrow> string \<Rightarrow> jsval \<Rightarrow> heap option" where
  "set_prop h (JRef a) k v =
     (case heap_at h a of
        Some (JObject kvs) \<Rightarrow> Some (h[a := JObject (put_key k v kvs)])
      | _ \<Rightarrow> None)"
| "set_prop h _ k v = None"

text \<open>\<^verbatim>\<open>base.k1.k2...\<close>, left to right.\<close>

fun get_path :: "heap \<Rightarrow> jsval \<Rightarrow> string list \<Rightarrow> jsval option" where
  "get_path h v [] = Some v"
| "get_path h v (k # ks) =
     (case get_prop h v k of None \<Rightarrow> None | Some w \<Rightarrow> get_path h w ks)"

text \<open>The own keys of a plain object, in insertion order, and the elements of an array.\<close>

fun own_keys :: "heap \<Rightarrow> jsval \<Rightarrow> string list option" where
  "own_keys h (JRef a) =
     (case heap_at h a of Some (JObject kvs) \<Rightarrow> Some (map fst kvs) | _ \<Rightarrow> None)"
| "own_keys h _ = None"

fun elements :: "heap \<Rightarrow> jsval \<Rightarrow> jsval list option" where
  "elements h (JRef a) =
     (case heap_at h a of Some (JArray vs) \<Rightarrow> Some vs | _ \<Rightarrow> None)"
| "elements h _ = None"

section \<open>Class declarations and construction\<close>

datatype visibility = Public | Protected | Private

text \<open>
  A property declaration of a class body: its name, its modifiers and its initialiser.
  The initialiser runs with \<^verbatim>\<open>this\<close> bound to the object under construction and may
  allocate.
\<close>

record property_decl =
  prop_name :: string
  prop_visibility :: visibility
  prop_readonly :: bool
  prop_init :: "jsval \<Rightarrow> heap \<Rightarrow> (jsval \<times> heap) option"

text \<open>
  \<^verbatim>\<open>new C()\<close> for a class without a constructor of its own and without a base class:
  allocate the empty object, then run the initialisers in declaration order, each one
  storing its value under the property's name. The modifiers \<^verbatim>\<open>private\<close> and
  \<^verbatim>\<open>readonly\<close> are checked by the compiler only: every declared property becomes
  an own property of the instance.
\<close>

fun init_props :: "jsval \<Rightarrow> property_decl list \<Rightarrow> heap \<Rightarrow> heap option" where
  "init_props this [] h = Some h"
| "init_props this (p # ps) h =
     (case prop_init p this h of
        None \<Rightarrow> None
      | Some (v, h') \<Rightarrow>
          (case set_prop h' this (prop_name p) v of
             None \<Rightarrow> None
           | Some h'' \<Rightarrow> init_props this ps h''))"

definition new :: "property_decl list \<Rightarrow> heap \<Rightarrow> (jsval \<times> heap) option" where
  "new cls h = (case alloc (JObject []) h of (this, h') \<Rightarrow>
     (case init_props this cls h' of None \<Rightarrow> None | Some h'' \<Rightarrow> Some (this, h'')))"

section \<open>The class GlobalFilterDefaults\<close>

text \<open>
  An object literal and an array literal whose members are already evaluated: each
  evaluation allocates a new object.
\<close>

definition object_literal :: "(string \<times> jsval) list \<Rightarrow> heap \<Rightarrow> jsval \<times> heap" where
  "object_literal kvs h = alloc (JObject kvs) h"

definition array_literal :: "jsval list \<Rightarrow> heap \<Rightarrow> jsval \<times> heap" where
  "array_literal vs h = alloc (JArray vs) h"

text \<open>
  \<^verbatim>\<open>private readonly defaultStates: RunState[] = [ { name: 'Scheduled', type: 'SCHEDULED' }, ... ]\<close>
\<close>

definition defaultStates_init :: "jsval \<Rightarrow> heap \<Rightarrow> (jsval \<times> heap) option" where
  "defaultStates_init this h0 =
     (let (s1, h1) = object_literal [(''name'', JString ''Scheduled''), (''type'', JString ''SCHEDULED'')] h0;
          (s2, h2) = object_literal [(''name'', JString ''Pending''), (''type'', JString ''PENDING'')] h1;
          (s3, h3) = object_literal [(''name'', JString ''Running''), (''type'', JString ''RUNNING'')] h2;
          (s4, h4) = object_literal [(''name'', JString ''Completed''), (''type'', JString ''COMPLETED'')] h3;
          (s5, h5) = object_literal [(''name'', JString ''Failed''), (''type'', JString ''FAILED'')] h4;
          (s6, h6) = object_literal [(''name'', JString ''Cancelled''), (''type'', JString ''CANCELLED'')] h5
      in Some (array_literal [s1, s2, s3, s4, s5, s6] h6))"

text \<open>
  \<^verbatim>\<open>private readonly defaultTimeFrame: RunTimeFrame =
      { dynamic: true, from: { value: 7, unit: 'days' }, to: { value: 1, unit: 'days' } }\<close>
\<close>

definition defaultTimeFrame_init :: "jsval \<Rightarrow> heap \<Rightarrow> (jsval \<times> heap) option" where
  "defaultTimeFrame_init this h0 =
     (let (f, h1) = object_literal [(''value'', JNumber 7), (''unit'', JString ''days'')] h0;
          (t, h2) = object_literal [(''value'', JNumber 1), (''unit'', JString ''days'')] h1
      in Some (object_literal [(''dynamic'', JBoolean True), (''from'', f), (''to'', t)] h2))"

text \<open>\<^verbatim>\<open>public flows = {}\<close>, and the same for \<^verbatim>\<open>deployments\<close> and \<^verbatim>\<open>task_runs\<close>.\<close>

definition empty_init :: "jsval \<Rightarrow> heap \<Rightarrow> (jsval \<times> heap) option" where
  "empty_init this h = Some (object_literal [] h)"

text \<open>
  \<^verbatim>\<open>public flow_runs = { timeframe: this.defaultTimeFrame, states: this.defaultStates }\<close>
\<close>

definition flow_runs_init :: "jsval \<Rightarrow> heap \<Rightarrow> (jsval \<times> heap) option" where
  "flow_runs_init this h =
     (case get_prop h this ''defaultTimeFrame'' of
        None \<Rightarrow> None | Some tf \<Rightarrow>
     (case get_prop h this ''defaultStates'' of
        None \<Rightarrow> None | Some sts \<Rightarrow>
     Some (object_literal [(''timeframe'', tf), (''states'', sts)] h)))"

definition GlobalFilterDefaults :: "property_decl list" where
  "GlobalFilterDefaults =
     [ \<lparr> prop_name = ''defaultStates'', prop_visibility = Private, prop_readonly = True,
         prop_init = defaultStates_init \<rparr>,
       \<lparr> prop_name = ''defaultTimeFrame'', prop_visibility = Private, prop_readonly = True,
         prop_init = defaultTimeFrame_init \<rparr>,
       \<lparr> prop_name = ''flows'', prop_visibility = Public, prop_readonly = False,
         prop_init = empty_init \<rparr>,
       \<lparr> prop_name = ''deployments'', prop_visibility = Public, prop_readonly = False,
         prop_init = empty_init \<rparr>,
       \<lparr> prop_name = ''flow_runs'', prop_visibility = Public, prop_readonly = False,
         prop_init = flow_runs_init \<rparr>,
       \<lparr> prop_name = ''task_runs'', prop_visibility = Public, prop_readonly = False,
         prop_init = empty_init \<rparr> ]"

section \<open>Observing an instance\<close>

text \<open>
  The structure reachable from a value, with the references followed and the addresses
  forgotten: two values are deep-equal when their snapshots are the same tree. A cyclic
  structure has no finite snapshot, so the traversal counts the references it may still
  follow and gives up at zero. A path through an acyclic structure visits every address
  at most once, so a count of \<open>length h\<close> is enough for all of them.
\<close>

datatype json =
    JUndef
  | JBool bool
  | JNum int
  | JStr string
  | JArr "json list"
  | JObj "(string \<times> json) list"

fun snapshot :: "nat \<Rightarrow> heap \<Rightarrow> jsval \<Rightarrow> json option" where
  "snapshot n h JUndefined = Some JUndef"
| "snapshot n h (JBoolean b) = Some (JBool b)"
| "snapshot n h (JNumber i) = Some (JNum i)"
| "snapshot n h (JString s) = Some (JStr s)"
| "snapshot 0 h (JRef a) = None"
| "snapshot (Suc n) h (JRef a) =
     (case heap_at h a of
        None \<Rightarrow> None
      | Some (JArray vs) \<Rightarrow> map_option JArr (those (map (snapshot n h) vs))
      | Some (JObject kvs) \<Rightarrow>
          map_option JObj (those (map (\<lambda>(k, v). map_option (Pair k) (snapshot n h v)) kvs)))"

definition deep_value :: "heap \<Rightarrow> jsval \<Rightarrow> json option" where
  "deep_value h v = snapshot (length h) h v"

text \<open>Reading along a path first: the snapshot, the own keys and the array elements found there.\<close>

definition deep_path :: "heap \<Rightarrow> jsval \<Rightarrow> string list \<Rightarrow> json option" where
  "deep_path h v ks = (case get_path h v ks of None \<Rightarrow> None | Some w \<Rightarrow> deep_value h w)"

definition keys_at :: "heap \<Rightarrow> jsval \<Rightarrow> string list \<Rightarrow> string list option" where
  "keys_at h v ks = (case get_path h v ks of None \<Rightarrow> None | Some w \<Rightarrow> own_keys h w)"

definition elements_at :: "heap \<Rightarrow> jsval \<Rightarrow> string list \<Rightarrow> jsval list option" where
  "elements_at h v ks = (case get_path h v ks of None \<Rightarrow> None | Some w \<Rightarrow> elements h w)"

text \<open>
  A property of every instance: whatever the heap \<open>h\<close> in which \<^verbatim>\<open>new GlobalFilterDefaults()\<close>
  runs, the construction returns, and the predicate holds of the heap it leaves and of
  the reference it returns.
\<close>

definition constructed :: "heap \<Rightarrow> (heap \<Rightarrow> jsval \<Rightarrow> bool) \<Rightarrow> bool" where
  "constructed h P =
     (case new GlobalFilterDefaults h of None \<Rightarrow> False | Some (this, h') \<Rightarrow> P h' this)"

text \<open>The own keys of a fresh instance, and the declarations of a class with a given visibility.\<close>

definition instance_keys :: "heap \<Rightarrow> string list option" where
  "instance_keys h =
     (case new GlobalFilterDefaults h of None \<Rightarrow> None | Some (this, h') \<Rightarrow> own_keys h' this)"

definition props_with :: "visibility \<Rightarrow> property_decl list \<Rightarrow> property_decl list" where
  "props_with vis cls = filter (\<lambda>p. prop_visibility p = vis) cls"

text \<open>The four default payloads of an instance, as snapshots.\<close>

definition payloads :: "heap \<Rightarrow> jsval \<Rightarrow> json option list" where
  "payloads h v =
     map (\<lambda>k. deep_path h v [k]) [''flows'', ''deployments'', ''flow_runs'', ''task_runs'']"

text \<open>
  Rewriting a code with its first letter in upper case and the others in lower case.
  The class holds both spellings as literals and never computes one from the other; this
  function states the relation between them. Only the letters A to Z have two cases here.
\<close>

definition upper_letters :: string where
  "upper_letters = ''ABCDEFGHIJKLMNOPQRSTUVWXYZ''"

definition lower_letters :: string where
  "lower_letters = ''abcdefghijklmnopqrstuvwxyz''"

definition to_upper :: "char \<Rightarrow> char" where
  "to_upper c = (case map_of (zip lower_letters upper_letters) c of Some d \<Rightarrow> d | None \<Rightarrow> c)"

definition to_lower :: "char \<Rightarrow> char" where
  "to_lower c = (case map_of (zip upper_letters lower_letters) c of Some d \<Rightarrow> d | None \<Rightarrow> c)"

fun capitalize :: "string \<Rightarrow> string" where
  "capitalize [] = []"
| "capitalize (c # cs) = to_upper c # map to_lower cs"

section \<open>The heap after construction\<close>

text \<open>
  Construction never raises. It allocates fifteen objects after the ones of \<open>h\<close> and
  touches no older one: the instance first, then the six states and their array, the two
  offsets and the time frame, and one object for each public property. The property
  \<^verbatim>\<open>flow_runs\<close> holds the very references stored under \<^verbatim>\<open>defaultTimeFrame\<close> and
  \<^verbatim>\<open>defaultStates\<close>.
\<close>

lemma new_layout:
  "new GlobalFilterDefaults h = Some (JRef (length h), h @
     [JObject
        [(''defaultStates'', JRef (length h + 7)), (''defaultTimeFrame'', JRef (length h + 10)),
         (''flows'', JRef (length h + 11)), (''deployments'', JRef (length h + 12)),
         (''flow_runs'', JRef (length h + 13)), (''task_runs'', JRef (length h + 14))],
      JObject [(''name'', JString ''Scheduled''), (''type'', JString ''SCHEDULED'')],
      JObject [(''name'', JString ''Pending''), (''type'', JString ''PENDING'')],
      JObject [(''name'', JString ''Running''), (''type'', JString ''RUNNING'')],
      JObject [(''name'', JString ''Completed''), (''type'', JString ''COMPLETED'')],
      JObject [(''name'', JString ''Failed''), (''type'', JString ''FAILED'')],
      JObject [(''name'', JString ''Cancelled''), (''type'', JString ''CANCELLED'')],
      JArray [JRef (length h + 1), JRef (length h + 2), JRef (length h + 3),
              JRef (length h + 4), JRef (length h + 5), JRef (length h + 6)],
      JObject [(''value'', JNumber 7), (''unit'', JString ''days'')],
      JObject [(''value'', JNumber 1), (''unit'', JString ''days'')],
      JObject [(''dynamic'', JBoolean True), (''from'', JRef (length h + 8)),
               (''to'', JRef (length h + 9))],
      JObject [],
      JObject [],
      JObject [(''timeframe'', JRef (length h + 10)), (''states'', JRef (length h + 7))],
      JObject []])"
  by (simp add: new_def GlobalFilterDefaults_def alloc_def object_literal_def array_literal_def
      defaultStates_init_def defaultTimeFrame_init_def empty_init_def flow_runs_init_def
      heap_at_def nth_append list_update_append)

lemmas observe = constructed_def new_layout heap_at_def nth_append deep_value_def deep_path_def
  keys_at_def elements_at_def

lemma instance_keys_new:
  "instance_keys h = Some [''defaultStates'', ''defaultTimeFrame'',
     ''flows'', ''deployments'', ''flow_runs'', ''task_runs'']"
  by (simp add: instance_keys_def new_layout heap_at_def nth_append)

lemma public_props:
  "map prop_name (props_with Public GlobalFilterDefaults) =
     [''flows'', ''deployments'', ''flow_runs'', ''task_runs'']"
  "map prop_readonly (props_with Public GlobalFilterDefaults) = [False, False, False, False]"
  by (simp_all add: props_with_def GlobalFilterDefaults_def)

lemma private_props:
  "map prop_name (props_with Private GlobalFilterDefaults) =
     [''defaultStates'', ''defaultTimeFrame'']"
  "map prop_readonly (props_with Private GlobalFilterDefaults) = [True, True]"
  by (simp_all add: props_with_def GlobalFilterDefaults_def)

subsection \<open>More fuel never changes a snapshot\<close>

lemma those_map_mono:
  assumes "those (map f xs) = Some ys"
    and "\<And>x y. x \<in> set xs \<Longrightarrow> f x = Some y \<Longrightarrow> g x = Some y"
  shows "those (map g xs) = Some ys"
  using assms
proof (induction xs arbitrary: ys)
  case Nil
  then show ?case by simp
next
  case (Cons x xs)
  from Cons.prems(1) obtain y zs
    where fx: "f x = Some y" and rest: "those (map f xs) = Some zs" and ys: "ys = y # zs"
    by (auto split: option.splits)
  have "g x = Some y"
    using Cons.prems(2) fx by simp
  moreover have "those (map g xs) = Some zs"
    using Cons.IH [OF rest] Cons.prems(2) by simp
  ultimately show ?case
    using ys by simp
qed

lemma snapshot_more_fuel: "snapshot n h v = Some j \<Longrightarrow> snapshot (n + m) h v = Some j"
proof (induction n h v arbitrary: j rule: snapshot.induct)
  case (6 n h a)
  show ?case
  proof (cases "heap_at h a")
    case None
    with "6.prems" show ?thesis by simp
  next
    case (Some ob)
    show ?thesis
    proof (cases ob)
      case (JArray vs)
      from "6.prems" Some JArray obtain js
        where js: "those (map (snapshot n h) vs) = Some js" and j: "j = JArr js"
        by auto
      have "those (map (snapshot (n + m) h) vs) = Some js"
        using js "6.IH"(2) [OF Some JArray] by (rule those_map_mono)
      with Some JArray j show ?thesis by simp
    next
      case (JObject kvs)
      let ?f = "\<lambda>n (k, v). map_option (Pair k) (snapshot n h v)"
      from "6.prems" Some JObject obtain js
        where js: "those (map (?f n) kvs) = Some js" and j: "j = JObj js"
        by auto
      have "those (map (?f (n + m)) kvs) = Some js"
      proof (rule those_map_mono [OF js])
        fix x y
        assume x: "x \<in> set kvs" and fx: "?f n x = Some y"
        obtain k v where kv: "x = (k, v)" by (cases x)
        from fx kv obtain w where w: "snapshot n h v = Some w" and y: "y = (k, w)"
          by auto
        have "snapshot (n + m) h v = Some w"
          using "6.IH"(1) [OF Some JObject x kv [symmetric] w] .
        with kv y show "?f (n + m) x = Some y" by simp
      qed
      with Some JObject j show ?thesis by simp
    qed
  qed
qed simp_all

text \<open>
  So the count that \<open>deep_value\<close> starts from is no restriction of its own: a snapshot
  found with any smaller count is the one it returns.
\<close>

lemma deep_value_from_snapshot:
  assumes "snapshot n h v = Some j" and "n \<le> length h"
  shows "deep_value h v = Some j"
proof -
  from assms(2) have "length h = n + (length h - n)"
    by simp
  then have "snapshot (length h) h v = snapshot (n + (length h - n)) h v"
    by simp
  also have "\<dots> = Some j"
    using assms(1) by (rule snapshot_more_fuel)
  finally show ?thesis
    by (simp add: deep_value_def)
qed

subsection \<open>The payloads of a fresh instance\<close>

lemma payloads_new:
  "constructed h (\<lambda>h' this. payloads h' this =
     [Some (JObj []),
      Some (JObj []),
      Some (JObj
        [(''timeframe'', JObj
           [(''dynamic'', JBool True),
            (''from'', JObj [(''value'', JNum 7), (''unit'', JStr ''days'')]),
            (''to'', JObj [(''value'', JNum 1), (''unit'', JStr ''days'')])]),
         (''states'', JArr
           [JObj [(''name'', JStr ''Scheduled''), (''type'', JStr ''SCHEDULED'')],
            JObj [(''name'', JStr ''Pending''), (''type'', JStr ''PENDING'')],
            JObj [(''name'', JStr ''Running''), (''type'', JStr ''RUNNING'')],
            JObj [(''name'', JStr ''Completed''), (''type'', JStr ''COMPLETED'')],
            JObj [(''name'', JStr ''Failed''), (''type'', JStr ''FAILED'')],
            JObj [(''name'', JStr ''Cancelled''), (''type'', JStr ''CANCELLED'')]])]),
      Some (JObj [])])"
  by (simp add: observe payloads_def)

section \<open>The default payloads\<close>

text \<open>
  Claim C1. In every instance, \<^verbatim>\<open>flow_runs.states\<close> is an array of exactly six records,
  with the type codes SCHEDULED, PENDING, RUNNING, COMPLETED, FAILED and CANCELLED, each
  paired with its display name Scheduled, Pending, Running, Completed, Failed, Cancelled.
\<close>

theorem C1_flow_runs_states:
  "constructed h (\<lambda>h' this.
     deep_path h' this [''flow_runs'', ''states''] = Some (JArr
       [JObj [(''name'', JStr ''Scheduled''), (''type'', JStr ''SCHEDULED'')],
        JObj [(''name'', JStr ''Pending''), (''type'', JStr ''PENDING'')],
        JObj [(''name'', JStr ''Running''), (''type'', JStr ''RUNNING'')],
        JObj [(''name'', JStr ''Completed''), (''type'', JStr ''COMPLETED'')],
        JObj [(''name'', JStr ''Failed''), (''type'', JStr ''FAILED'')],
        JObj [(''name'', JStr ''Cancelled''), (''type'', JStr ''CANCELLED'')]]))"
  by (simp add: observe)

text \<open>
  Claim C2. In every instance, \<^verbatim>\<open>flow_runs.timeframe.from\<close> is the record
  \<^verbatim>\<open>{ value: 7, unit: 'days' }\<close> and \<^verbatim>\<open>flow_runs.timeframe.to\<close> is the record
  \<^verbatim>\<open>{ value: 1, unit: 'days' }\<close>.
\<close>

theorem C2_timeframe_from_to:
  "constructed h (\<lambda>h' this.
     deep_path h' this [''flow_runs'', ''timeframe'', ''from''] =
       Some (JObj [(''value'', JNum 7), (''unit'', JStr ''days'')]) \<and>
     deep_path h' this [''flow_runs'', ''timeframe'', ''to''] =
       Some (JObj [(''value'', JNum 1), (''unit'', JStr ''days'')]))"
  by (simp add: observe)

text \<open>
  Claim C3. In every instance, \<^verbatim>\<open>flows\<close>, \<^verbatim>\<open>deployments\<close> and \<^verbatim>\<open>task_runs\<close> are
  objects without any key.
\<close>

theorem C3_empty_payloads:
  "constructed h (\<lambda>h' this.
     keys_at h' this [''flows''] = Some [] \<and>
     keys_at h' this [''deployments''] = Some [] \<and>
     keys_at h' this [''task_runs''] = Some [])"
  by (simp add: observe)

text \<open>Claim C4. In every instance, \<^verbatim>\<open>flow_runs.timeframe.dynamic\<close> is \<^verbatim>\<open>true\<close>.\<close>

theorem C4_timeframe_dynamic:
  "constructed h (\<lambda>h' this.
     get_path h' this [''flow_runs'', ''timeframe'', ''dynamic''] = Some (JBoolean True))"
  by (simp add: observe)

text \<open>
  Claim C5, as written, asks for exactly the four keys \<^verbatim>\<open>flows\<close>, \<^verbatim>\<open>deployments\<close>,
  \<^verbatim>\<open>flow_runs\<close> and \<^verbatim>\<open>task_runs\<close> on an instance, each a public read-only field.
  The instance built in the empty heap has other keys as well, and the public properties
  are not declared \<^verbatim>\<open>readonly\<close>.
\<close>

theorem C5_four_readonly_keys_counterexample:
  "map_option set (instance_keys []) \<noteq>
     Some {''flows'', ''deployments'', ''flow_runs'', ''task_runs''} \<and>
   map prop_readonly (props_with Public GlobalFilterDefaults) \<noteq> [True, True, True, True]"
proof
  let ?six = "[''defaultStates'', ''defaultTimeFrame'',
     ''flows'', ''deployments'', ''flow_runs'', ''task_runs'']"
  let ?four = "{''flows'', ''deployments'', ''flow_runs'', ''task_runs''}"
  have "set ?six \<noteq> ?four"
  proof
    assume eq: "set ?six = ?four"
    have "''defaultStates'' \<in> set ?six"
      by simp
    then have "''defaultStates'' \<in> ?four"
      unfolding eq .
    then show False
      by simp
  qed
  then show "map_option set (instance_keys []) \<noteq> Some ?four"
    unfolding instance_keys_new option.map option.inject .
  show "map prop_readonly (props_with Public GlobalFilterDefaults) \<noteq> [True, True, True, True]"
    unfolding public_props by simp
qed

text \<open>
  Claim C5, amended. Every instance has exactly six own keys: \<^verbatim>\<open>defaultStates\<close>,
  \<^verbatim>\<open>defaultTimeFrame\<close>, \<^verbatim>\<open>flows\<close>, \<^verbatim>\<open>deployments\<close>, \<^verbatim>\<open>flow_runs\<close> and
  \<^verbatim>\<open>task_runs\<close>. The last four are the public properties of the class, declared without
  \<^verbatim>\<open>readonly\<close>; the first two are its private properties, declared \<^verbatim>\<open>readonly\<close>.
\<close>

theorem C5_instance_keys:
  "instance_keys h = Some [''defaultStates'', ''defaultTimeFrame'',
     ''flows'', ''deployments'', ''flow_runs'', ''task_runs''] \<and>
   map prop_name (props_with Public GlobalFilterDefaults) =
     [''flows'', ''deployments'', ''flow_runs'', ''task_runs''] \<and>
   map prop_readonly (props_with Public GlobalFilterDefaults) = [False, False, False, False] \<and>
   map prop_name (props_with Private GlobalFilterDefaults) =
     [''defaultStates'', ''defaultTimeFrame''] \<and>
   map prop_readonly (props_with Private GlobalFilterDefaults) = [True, True]"
  by (simp add: instance_keys_new public_props private_props)

text \<open>
  Claim C6. In every instance, the \<^verbatim>\<open>type\<close> of every record of the default states list
  is one of SCHEDULED, PENDING, RUNNING, COMPLETED, FAILED, CANCELLED.
\<close>

theorem C6_type_in_closed_set:
  "constructed h (\<lambda>h' this.
     case elements_at h' this [''defaultStates''] of
       None \<Rightarrow> False
     | Some ss \<Rightarrow>
         \<forall>s\<in>set ss. \<exists>t. get_prop h' s ''type'' = Some (JString t) \<and>
           t \<in> {''SCHEDULED'', ''PENDING'', ''RUNNING'', ''COMPLETED'', ''FAILED'', ''CANCELLED''})"
  by (simp add: observe)

text \<open>
  The claim at the instance built in the empty heap: the third record of its list, at
  address 3, has the type RUNNING.
\<close>

theorem C6_type_in_closed_set_witness:
  "constructed [] (\<lambda>h' this.
     case elements_at h' this [''defaultStates''] of
       None \<Rightarrow> False
     | Some ss \<Rightarrow>
         JRef 3 \<in> set ss \<and> get_prop h' (JRef 3) ''type'' = Some (JString ''RUNNING'') \<and>
         ''RUNNING'' \<in> {''SCHEDULED'', ''PENDING'', ''RUNNING'', ''COMPLETED'', ''FAILED'', ''CANCELLED''})"
  using C6_type_in_closed_set [of "[]"]
  by (simp add: observe)

text \<open>
  Claim C7. Construction is deterministic: two instances, built in any two heaps, have
  the same snapshot under each of the four public properties, and each snapshot exists.
\<close>

theorem C7_construction_deterministic:
  "case new GlobalFilterDefaults h1 of
     None \<Rightarrow> False
   | Some (a, h1') \<Rightarrow>
       (case new GlobalFilterDefaults h2 of
          None \<Rightarrow> False
        | Some (b, h2') \<Rightarrow> payloads h1' a = payloads h2' b \<and> None \<notin> set (payloads h1' a))"
  using payloads_new [of h1] payloads_new [of h2]
  by (simp add: constructed_def split: option.splits prod.splits)

text \<open>
  Claim C8. In every instance, the type codes of \<^verbatim>\<open>flow_runs.states\<close> come in the order
  SCHEDULED, PENDING, RUNNING, COMPLETED, FAILED, CANCELLED, and no two are equal.
\<close>

theorem C8_states_order_distinct:
  "constructed h (\<lambda>h' this.
     case elements_at h' this [''flow_runs'', ''states''] of
       None \<Rightarrow> False
     | Some ss \<Rightarrow>
         map (\<lambda>s. get_prop h' s ''type'') ss =
           map (\<lambda>t. Some (JString t))
             [''SCHEDULED'', ''PENDING'', ''RUNNING'', ''COMPLETED'', ''FAILED'', ''CANCELLED''] \<and>
         distinct (map (\<lambda>s. get_prop h' s ''type'') ss))"
  by (simp add: observe)

text \<open>
  Claim C9. In every instance, the default time frame looks backwards: both units are
  \<^verbatim>\<open>'days'\<close>, both values are positive integers, and \<^verbatim>\<open>from.value\<close> is greater than
  \<^verbatim>\<open>to.value\<close>.
\<close>

theorem C9_timeframe_backward_window:
  "constructed h (\<lambda>h' this.
     get_path h' this [''flow_runs'', ''timeframe'', ''from'', ''unit''] = Some (JString ''days'') \<and>
     get_path h' this [''flow_runs'', ''timeframe'', ''to'', ''unit''] = Some (JString ''days'') \<and>
     (\<exists>f t. get_path h' this [''flow_runs'', ''timeframe'', ''from'', ''value''] = Some (JNumber f) \<and>
            get_path h' this [''flow_runs'', ''timeframe'', ''to'', ''value''] = Some (JNumber t) \<and>
            0 < f \<and> 0 < t \<and> t < f))"
  by (simp add: observe)

text \<open>
  Claim C10. In every instance, the display name of every record of the default states
  list is its type code with the first letter in upper case and the others in lower case.
\<close>

theorem C10_name_capitalizes_type:
  "constructed h (\<lambda>h' this.
     case elements_at h' this [''defaultStates''] of
       None \<Rightarrow> False
     | Some ss \<Rightarrow>
         \<forall>s\<in>set ss. \<exists>t. get_prop h' s ''type'' = Some (JString t) \<and>
           get_prop h' s ''name'' = Some (JString (capitalize t)))"
  by (simp add: observe to_upper_def to_lower_def upper_letters_def lower_letters_def)

text \<open>
  The claim at the instance built in the empty heap: its first record, at address 1, has
  the type SCHEDULED and the name Scheduled.
\<close>

theorem C10_name_capitalizes_type_witness:
  "constructed [] (\<lambda>h' this.
     case elements_at h' this [''defaultStates''] of
       None \<Rightarrow> False
     | Some ss \<Rightarrow>
         JRef 1 \<in> set ss \<and> get_prop h' (JRef 1) ''type'' = Some (JString ''SCHEDULED'') \<and>
         get_prop h' (JRef 1) ''name'' = Some (JString ''Scheduled'') \<and>
         capitalize ''SCHEDULED'' = ''Scheduled'')"
  using C10_name_capitalizes_type [of "[]"]
  by (simp add: observe to_upper_def to_lower_def upper_letters_def lower_letters_def)

section \<open>Two instances in one heap\<close>

text \<open>
  Built one after the other, two instances are different objects with equal payloads, and
  building the second leaves the payloads of the first as they were.
\<close>

lemma two_instances_distinct:
  "case new GlobalFilterDefaults h of
     None \<Rightarrow> False
   | Some (a, h1) \<Rightarrow>
       (case new GlobalFilterDefaults h1 of
          None \<Rightarrow> False
        | Some (b, h2) \<Rightarrow>
            a \<noteq> b \<and> payloads h2 a = payloads h2 b \<and> payloads h2 a = payloads h1 a)"
  by (simp add: observe payloads_def)

text \<open>
  Inside one instance, \<^verbatim>\<open>flow_runs.states\<close> is the array stored under \<^verbatim>\<open>defaultStates\<close>
  and \<^verbatim>\<open>flow_runs.timeframe\<close> is the object stored under \<^verbatim>\<open>defaultTimeFrame\<close>.
\<close>

lemma flow_runs_shares_defaults:
  "constructed h (\<lambda>h' this.
     get_path h' this [''flow_runs'', ''states''] = get_path h' this [''defaultStates''] \<and>
     get_path h' this [''flow_runs'', ''timeframe''] = get_path h' this [''defaultTimeFrame''])"
  by (simp add: observe)


end
